theory Spec2Isabelle
  imports Main "HOL-Library.AList"
begin

section \<open>Values of the JavaScript source\<close>

text \<open>
  The module \<^verbatim>\<open>modules/RTC/RTCUtils.js\<close> is embedded function by function.
  A property that may be \<^verbatim>\<open>undefined\<close> is an \<open>option\<close>; a property holding
  \<^verbatim>\<open>undefined\<close> and a missing property are not told apart. Numbers of the options
  record are only tested for truthiness and copied, so they are integers here.
  Calls of the logger are not part of the model.
\<close>

datatype jserror =
    TypeError string
  | Error string
  | BackendError string

text \<open>Truthiness of a string and of a number, and the operator \<^verbatim>\<open>a || b\<close> on numbers.\<close>

definition truthyS :: "string option \<Rightarrow> bool" where
  "truthyS v = (case v of None \<Rightarrow> False | Some s \<Rightarrow> s \<noteq> [])"

definition truthyN :: "int option \<Rightarrow> bool" where
  "truthyN v = (case v of None \<Rightarrow> False | Some n \<Rightarrow> n \<noteq> 0)"

definition orN :: "int option \<Rightarrow> int option \<Rightarrow> int option" where
  "orN a b = (if truthyN a then a else b)"

section \<open>What the module reads from its surroundings\<close>

text \<open>
  \<^verbatim>\<open>RTCBrowserType\<close>, the table \<^verbatim>\<open>Resolutions\<close>, \<^verbatim>\<open>window.screen\<close>, the
  Temasys plugin's \<^verbatim>\<open>screensharingKey\<close>, \<^verbatim>\<open>screenObtainer.isSupported()\<close> and
  the list \<^verbatim>\<open>MediaStreamTrack.getSources\<close> reports are not defined in this file of
  the repository: they are parameters, collected in one record, together with the
  identifier and the \<^verbatim>\<open>stop\<close> method of a stream that \<^verbatim>\<open>new webkitMediaStream()\<close>
  creates.
\<close>

record res_entry =
  width :: int
  height :: int

record source_info =
  kind :: string
  facing :: string
  sourceInfoId :: string

record env =
  isAndroid :: bool
  isReactNative :: bool
  isFirefox :: bool
  isChrome :: bool
  isTemasysPluginUsed :: bool
  Resolutions :: "string \<Rightarrow> res_entry option"
  screen_width :: int
  screen_height :: int
  screensharingKey :: "string option"
  screenObtainer_isSupported :: bool
  sourceInfos :: "source_info list"
  newStreamId :: string
  newStreamHasStop :: bool

section \<open>Constraint descriptors\<close>

record mandatory_fields =
  minWidth :: "int option"
  minHeight :: "int option"
  maxWidth :: "int option"
  maxHeight :: "int option"
  minFrameRate :: "int option"
  maxFrameRate :: "int option"
  chromeMediaSource :: "string option"
  chromeMediaSourceId :: "string option"
  googLeakyBucket :: "bool option"

datatype hint =
    SourceId "string option"
  | GoogLeakyBucket bool
  | Bandwidth "int option"
  | GoogEchoCancellation bool
  | GoogAutoGainControl bool
  | GoogNoiseSupression bool
  | GoogHighpassFilter bool
  | GoogNoisesuppression2 bool
  | GoogEchoCancellation2 bool
  | GoogAutoGainControl2 bool

record media_object =
  mandatory :: "mandatory_fields option"
  optional :: "hint list option"
  deviceId :: "string option"
  mozMediaSource :: "string option"
  mediaSource :: "string option"

datatype media_constraint = Flag bool | Obj media_object

record constraints =
  audio :: media_constraint
  video :: media_constraint
  fake :: "bool option"

record options =
  devices :: "string list option"
  resolution :: "string option"
  bandwidth :: "int option"
  fps :: "int option"
  minFps :: "int option"
  maxFps :: "int option"
  desktopStream :: "string option"
  cameraDeviceId :: "string option"
  micDeviceId :: "string option"
  firefox_fake_device :: bool

text \<open>The object literal \<^verbatim>\<open>{}\<close> of a \<^verbatim>\<open>mandatory\<close> field.\<close>

definition emptyMandatory :: mandatory_fields where
  "emptyMandatory =
     \<lparr>minWidth = None, minHeight = None, maxWidth = None, maxHeight = None,
      minFrameRate = None, maxFrameRate = None, chromeMediaSource = None,
      chromeMediaSourceId = None, googLeakyBucket = None\<rparr>"

text \<open>The object literal \<^verbatim>\<open>{mandatory: {}, optional: []}\<close> ("same behaviour as true").\<close>

definition emptyMedia :: media_object where
  "emptyMedia =
     \<lparr>mandatory = Some emptyMandatory, optional = Some [], deviceId = None,
      mozMediaSource = None, mediaSource = None\<rparr>"

definition truthyC :: "media_constraint \<Rightarrow> bool" where
  "truthyC c = (case c of Flag b \<Rightarrow> b | Obj _ \<Rightarrow> True)"

section \<open>setResolutionConstraints\<close>

text \<open>
  The function writes into \<^verbatim>\<open>constraints.video.mandatory\<close>. Where that object is
  missing the property access raises a TypeError, which is the \<open>Inl\<close> branch.
\<close>

definition setMaxFromMin :: "mandatory_fields \<Rightarrow> mandatory_fields" where
  "setMaxFromMin m =
     (let m1 = (if truthyN (minWidth m) then m\<lparr>maxWidth := minWidth m\<rparr> else m)
      in if truthyN (minHeight m1) then m1\<lparr>maxHeight := minHeight m1\<rparr> else m1)"

definition setResolutionMandatory ::
  "env \<Rightarrow> mandatory_fields \<Rightarrow> string option \<Rightarrow> mandatory_fields" where
  "setResolutionMandatory e m res =
     setMaxFromMin
       (case Resolutions e (case res of None \<Rightarrow> ''undefined'' | Some r \<Rightarrow> r) of
          Some entry \<Rightarrow> m\<lparr>minWidth := Some (width entry), minHeight := Some (height entry)\<rparr>
        | None \<Rightarrow>
            if isAndroid e
            then m\<lparr>minWidth := Some 320, minHeight := Some 180, maxFrameRate := Some 15\<rparr>
            else m)"

definition setResolutionConstraints ::
  "env \<Rightarrow> constraints \<Rightarrow> string option \<Rightarrow> jserror + constraints" where
  "setResolutionConstraints e c res =
     (case video c of
        Flag _ \<Rightarrow> Inl (TypeError ''constraints.video.mandatory is undefined'')
      | Obj v \<Rightarrow>
          (case mandatory v of
             None \<Rightarrow> Inl (TypeError ''constraints.video.mandatory is undefined'')
           | Some m \<Rightarrow>
               Inr (c\<lparr>video := Obj (v\<lparr>mandatory := Some (setResolutionMandatory e m res)\<rparr>)\<rparr>)))"

section \<open>getConstraints\<close>

text \<open>
  The function builds its result in a local variable, one \<^verbatim>\<open>if\<close> block after the
  other; each block is a definition here, in the order of the source. The function
  assigns to \<^verbatim>\<open>options.minFps\<close>, so it returns the options record it leaves behind
  next to its result, also when it raises.
\<close>

definition constraints0 :: constraints where
  "constraints0 = \<lparr>audio = Flag False, video = Flag False, fake = None\<rparr>"

definition videoStage :: "env \<Rightarrow> string list \<Rightarrow> options \<Rightarrow> constraints \<Rightarrow> jserror + constraints" where
  "videoStage e um opts c =
     (if ''video'' \<in> set um
      then setResolutionConstraints e
             (c\<lparr>video := Obj (emptyMedia
                \<lparr>optional :=
                   Some ((if truthyS (cameraDeviceId opts)
                          then [SourceId (cameraDeviceId opts)] else [])
                         @ [GoogLeakyBucket True]),
                 deviceId :=
                   (if truthyS (cameraDeviceId opts) then cameraDeviceId opts else None)\<rparr>)\<rparr>)
             (resolution opts)
      else Inr c)"

definition audioHints :: "hint list" where
  "audioHints =
     [GoogEchoCancellation True, GoogAutoGainControl True, GoogNoiseSupression True,
      GoogHighpassFilter True, GoogNoisesuppression2 True, GoogEchoCancellation2 True,
      GoogAutoGainControl2 True]"

definition audioStage :: "env \<Rightarrow> string list \<Rightarrow> options \<Rightarrow> constraints \<Rightarrow> constraints" where
  "audioStage e um opts c =
     (if ''audio'' \<in> set um
      then if isReactNative e then c\<lparr>audio := Flag True\<rparr>
           else if \<not> isFirefox e
           then c\<lparr>audio := Obj (emptyMedia
                  \<lparr>optional :=
                     Some ((if truthyS (micDeviceId opts)
                            then [SourceId (micDeviceId opts)] else [])
                           @ audioHints),
                   deviceId :=
                     (if truthyS (micDeviceId opts) then micDeviceId opts else None)\<rparr>)\<rparr>
           else if truthyS (micDeviceId opts)
           then c\<lparr>audio := Obj (emptyMedia
                  \<lparr>optional := Some [SourceId (micDeviceId opts)],
                   deviceId := micDeviceId opts\<rparr>)\<rparr>
           else c\<lparr>audio := Flag True\<rparr>
      else c)"

definition screenMandatory :: "env \<Rightarrow> mandatory_fields" where
  "screenMandatory e =
     emptyMandatory
       \<lparr>maxWidth := Some (screen_width e), maxHeight := Some (screen_height e),
        maxFrameRate := Some 3, chromeMediaSource := Some ''screen'',
        googLeakyBucket := Some True\<rparr>"

definition screenStage :: "env \<Rightarrow> string list \<Rightarrow> constraints \<Rightarrow> constraints" where
  "screenStage e um c =
     (if ''screen'' \<in> set um
      then if isChrome e
           then c\<lparr>video := Obj (emptyMedia\<lparr>mandatory := Some (screenMandatory e)\<rparr>)\<rparr>
           else if isTemasysPluginUsed e
           then c\<lparr>video := Obj (emptyMedia
                  \<lparr>mandatory := None, optional := Some [SourceId (screensharingKey e)]\<rparr>)\<rparr>
           else if isFirefox e
           then c\<lparr>video := Obj (emptyMedia
                  \<lparr>mandatory := None, optional := None,
                   mozMediaSource := Some ''window'', mediaSource := Some ''window''\<rparr>)\<rparr>
           else c
      else c)"

definition desktopMandatory :: "env \<Rightarrow> options \<Rightarrow> mandatory_fields" where
  "desktopMandatory e opts =
     emptyMandatory
       \<lparr>maxWidth := Some (screen_width e), maxHeight := Some (screen_height e),
        maxFrameRate := Some 3, chromeMediaSource := Some ''desktop'',
        chromeMediaSourceId := desktopStream opts, googLeakyBucket := Some True\<rparr>"

definition desktopStage :: "env \<Rightarrow> string list \<Rightarrow> options \<Rightarrow> constraints \<Rightarrow> constraints" where
  "desktopStage e um opts c =
     (if ''desktop'' \<in> set um
      then c\<lparr>video := Obj (emptyMedia\<lparr>mandatory := Some (desktopMandatory e opts)\<rparr>)\<rparr>
      else c)"

text \<open>\<^verbatim>\<open>if (!constraints.video) constraints.video = {mandatory: {}, optional: []}\<close>\<close>

definition ensureVideo :: "constraints \<Rightarrow> constraints" where
  "ensureVideo c = (if truthyC (video c) then c else c\<lparr>video := Obj emptyMedia\<rparr>)"

text \<open>
  \<^verbatim>\<open>constraints.video.optional.push(h)\<close> and \<^verbatim>\<open>constraints.video.mandatory.x = v\<close>:
  both raise a TypeError where the object they write into is \<^verbatim>\<open>undefined\<close>.
\<close>

definition pushOptional :: "hint \<Rightarrow> constraints \<Rightarrow> jserror + constraints" where
  "pushOptional h c =
     (case video c of
        Flag _ \<Rightarrow> Inl (TypeError ''constraints.video.optional is undefined'')
      | Obj v \<Rightarrow>
          (case optional v of
             None \<Rightarrow> Inl (TypeError ''constraints.video.optional is undefined'')
           | Some hs \<Rightarrow> Inr (c\<lparr>video := Obj (v\<lparr>optional := Some (hs @ [h])\<rparr>)\<rparr>)))"

definition assignMandatory ::
  "(mandatory_fields \<Rightarrow> mandatory_fields) \<Rightarrow> constraints \<Rightarrow> jserror + constraints" where
  "assignMandatory f c =
     (case video c of
        Flag _ \<Rightarrow> Inl (TypeError ''constraints.video.mandatory is undefined'')
      | Obj v \<Rightarrow>
          (case mandatory v of
             None \<Rightarrow> Inl (TypeError ''constraints.video.mandatory is undefined'')
           | Some m \<Rightarrow> Inr (c\<lparr>video := Obj (v\<lparr>mandatory := Some (f m)\<rparr>)\<rparr>)))"

definition bandwidthStage :: "options \<Rightarrow> constraints \<Rightarrow> jserror + constraints" where
  "bandwidthStage opts c =
     (if truthyN (bandwidth opts)
      then pushOptional (Bandwidth (bandwidth opts)) (ensureVideo c)
      else Inr c)"

definition maxFpsStage :: "options \<Rightarrow> constraints \<Rightarrow> jserror + constraints" where
  "maxFpsStage opts c =
     (if truthyN (maxFps opts)
      then assignMandatory (\<lambda>m. m\<lparr>maxFrameRate := maxFps opts\<rparr>) c
      else Inr c)"

definition fpsStage :: "options \<Rightarrow> constraints \<Rightarrow> (jserror + constraints) \<times> options" where
  "fpsStage opts c =
     (if truthyN (minFps opts) \<or> truthyN (maxFps opts) \<or> truthyN (fps opts)
      then if truthyN (minFps opts) \<or> truthyN (fps opts)
           then let opts1 = opts\<lparr>minFps := orN (minFps opts) (fps opts)\<rparr>
                in (case assignMandatory (\<lambda>m. m\<lparr>minFrameRate := minFps opts1\<rparr>)
                          (ensureVideo c) of
                      Inl err \<Rightarrow> (Inl err, opts1)
                    | Inr c1 \<Rightarrow> (maxFpsStage opts1 c1, opts1))
           else (maxFpsStage opts (ensureVideo c), opts)
      else (Inr c, opts))"

definition fakeStage :: "env \<Rightarrow> options \<Rightarrow> constraints \<Rightarrow> constraints" where
  "fakeStage e opts c =
     (if isFirefox e \<and> firefox_fake_device opts then c\<lparr>fake := Some True\<rparr> else c)"

definition getConstraints ::
  "env \<Rightarrow> string list \<Rightarrow> options \<Rightarrow> (jserror + constraints) \<times> options" where
  "getConstraints e um opts =
     (case videoStage e um opts constraints0 of
        Inl err \<Rightarrow> (Inl err, opts)
      | Inr c1 \<Rightarrow>
          (case bandwidthStage opts
                  (desktopStage e um opts (screenStage e um (audioStage e um opts c1))) of
             Inl err \<Rightarrow> (Inl err, opts)
           | Inr c2 \<Rightarrow>
               (case fpsStage opts c2 of
                  (Inl err, opts1) \<Rightarrow> (Inl err, opts1)
                | (Inr c3, opts1) \<Rightarrow> (Inr (fakeStage e opts1 c3), opts1))))"

section \<open>Streams and stopMediaStream\<close>

text \<open>
  A stream is its identifier, its audio and video tracks, whether it has a \<^verbatim>\<open>stop\<close>
  method and its \<^verbatim>\<open>jitsiObjectURL\<close>. What \<^verbatim>\<open>stopMediaStream\<close> does to the outside
  is the list of effects it returns, in the order of the source. \<^verbatim>\<open>getTracks()\<close>
  lists the audio tracks before the video tracks.
\<close>

record media_track =
  trackId :: string
  hasStop :: bool

record media_stream =
  streamId :: string
  audioTracks :: "media_track list"
  videoTracks :: "media_track list"
  streamHasStop :: bool
  jitsiObjectURL :: "string option"

datatype effect = TrackStop string | StreamStop string | RevokeObjectURL string

definition getTracks :: "media_stream \<Rightarrow> media_track list" where
  "getTracks s = audioTracks s @ videoTracks s"

definition stopMediaStream :: "env \<Rightarrow> media_stream \<Rightarrow> effect list" where
  "stopMediaStream e s =
     map (\<lambda>t. TrackStop (trackId t))
       (filter (\<lambda>t. \<not> isTemasysPluginUsed e \<and> hasStop t) (getTracks s))
     @ (if streamHasStop s then [StreamStop (streamId s)] else [])
     @ (case jitsiObjectURL s of
          None \<Rightarrow> []
        | Some url \<Rightarrow> if url \<noteq> [] then [RevokeObjectURL url] else [])"

section \<open>handleLocalStream\<close>

datatype MediaType = AUDIO | VIDEO

datatype VideoType = CAMERA | DESKTOP

record track_desc =
  stream :: media_stream
  track :: "media_track option"
  mediaType :: MediaType
  videoType :: "VideoType option"
  resolutionLabel :: "string option"

text \<open>
  The raw result bundle is a JavaScript object: an association list from property
  names to streams, read with \<open>map_of\<close>.
\<close>

type_synonym raw_bundle = "(string \<times> media_stream) list"

definition webkitMediaStream :: "env \<Rightarrow> media_stream" where
  "webkitMediaStream e =
     \<lparr>streamId = newStreamId e, audioTracks = [], videoTracks = [],
      streamHasStop = newStreamHasStop e, jitsiObjectURL = None\<rparr>"

definition addAudioTrack :: "media_stream \<Rightarrow> media_track \<Rightarrow> media_stream" where
  "addAudioTrack s t = s\<lparr>audioTracks := audioTracks s @ [t]\<rparr>"

definition addVideoTrack :: "media_stream \<Rightarrow> media_track \<Rightarrow> media_stream" where
  "addVideoTrack s t = s\<lparr>videoTracks := videoTracks s @ [t]\<rparr>"

text \<open>\<^verbatim>\<open>tracks[0]\<close>, which is \<^verbatim>\<open>undefined\<close> on an empty array.\<close>

definition firstTrack :: "media_track list \<Rightarrow> media_track option" where
  "firstTrack ts = (case ts of [] \<Rightarrow> None | t # _ \<Rightarrow> Some t)"

definition audioStreamOf :: "env \<Rightarrow> raw_bundle option \<Rightarrow> media_stream option" where
  "audioStreamOf e streams =
     (case streams of
        None \<Rightarrow> None
      | Some b \<Rightarrow>
          (case map_of b ''audioVideo'' of
             Some audioVideo \<Rightarrow>
               if audioTracks audioVideo \<noteq> []
               then Some (foldl addAudioTrack (webkitMediaStream e) (audioTracks audioVideo))
               else None
           | None \<Rightarrow> map_of b ''audio''))"

definition videoStreamOf :: "env \<Rightarrow> raw_bundle option \<Rightarrow> media_stream option" where
  "videoStreamOf e streams =
     (case streams of
        None \<Rightarrow> None
      | Some b \<Rightarrow>
          (case map_of b ''audioVideo'' of
             Some audioVideo \<Rightarrow>
               if videoTracks audioVideo \<noteq> []
               then Some (foldl addVideoTrack (webkitMediaStream e) (videoTracks audioVideo))
               else None
           | None \<Rightarrow> map_of b ''video''))"

definition desktopStreamOf :: "raw_bundle option \<Rightarrow> media_stream option" where
  "desktopStreamOf streams =
     (case streams of
        None \<Rightarrow> None
      | Some b \<Rightarrow>
          (case map_of b ''desktopStream'' of
             Some d \<Rightarrow> Some d
           | None \<Rightarrow> map_of b ''desktop''))"

definition handleLocalStream :: "env \<Rightarrow> raw_bundle option \<Rightarrow> string option \<Rightarrow> track_desc list" where
  "handleLocalStream e streams res =
     (case desktopStreamOf streams of
        Some dStream \<Rightarrow>
          [\<lparr>stream = dStream, track = firstTrack (videoTracks dStream),
            mediaType = VIDEO, videoType = Some DESKTOP, resolutionLabel = None\<rparr>]
      | None \<Rightarrow> [])
     @ (case audioStreamOf e streams of
          Some aStream \<Rightarrow>
            [\<lparr>stream = aStream, track = firstTrack (audioTracks aStream),
              mediaType = AUDIO, videoType = None, resolutionLabel = None\<rparr>]
        | None \<Rightarrow> [])
     @ (case videoStreamOf e streams of
          Some vStream \<Rightarrow>
            [\<lparr>stream = vStream, track = firstTrack (videoTracks vStream),
              mediaType = VIDEO, videoType = Some CAMERA, resolutionLabel = res\<rparr>]
        | None \<Rightarrow> [])"

section \<open>The device availability tracker\<close>

text \<open>
  The module variable \<^verbatim>\<open>devices\<close> and everything the module does to the outside are
  one record: the availability flags, the payloads emitted with
  \<^verbatim>\<open>AVAILABLE_DEVICES_CHANGED\<close> (oldest first), the capture calls made to the
  backend and the effects of stopping streams.
\<close>

record availability =
  audioAvailable :: bool
  videoAvailable :: bool

datatype call = GetUserMedia constraints | ObtainStream

record world =
  availableDevices :: availability
  emitted :: "availability list"
  calls :: "call list"
  effects :: "effect list"

definition initialDevices :: availability where
  "initialDevices = \<lparr>audioAvailable = True, videoAvailable = True\<rparr>"

definition setAvailableDevices :: "string list \<Rightarrow> bool \<Rightarrow> world \<Rightarrow> world" where
  "setAvailableDevices um available w =
     (let d1 = (if ''video'' \<in> set um
                then (availableDevices w)\<lparr>videoAvailable := available\<rparr>
                else availableDevices w);
          d2 = (if ''audio'' \<in> set um then d1\<lparr>audioAvailable := available\<rparr> else d1)
      in w\<lparr>availableDevices := d2, emitted := emitted w @ [d2]\<rparr>)"

definition getDeviceAvailability :: "world \<Rightarrow> availability" where
  "getDeviceAvailability w = availableDevices w"

section \<open>getUserMediaWithConstraints\<close>

text \<open>
  The capture primitives (\<^verbatim>\<open>this.getUserMedia\<close> and
  \<^verbatim>\<open>screenObtainer.obtainStream\<close>) belong to the browser. Their behaviour is a
  parameter: the \<open>n\<close>-th capture call of a run (counting from 0) ends the way
  \<open>backend n\<close> says. It calls the success callback with a stream, calls the error
  callback, throws while it is being called, or never calls back. Callbacks run
  after the call has returned, one capture at a time.
\<close>

datatype outcome =
    Succeeds media_stream
  | Fails jserror
  | Throws jserror
  | Hangs

text \<open>
  What a capture function of this module does with its two callbacks: it calls the
  success callback, it calls the failure callback, it raises to its caller, or it calls
  neither.
\<close>

datatype gum_result =
    Success media_stream
  | Failure jserror
  | Raised jserror
  | NoCallback

definition getUM ::
  "(nat \<Rightarrow> outcome) \<Rightarrow> string list \<Rightarrow> constraints \<Rightarrow> world \<Rightarrow> gum_result \<times> world" where
  "getUM backend um c w =
     (let w1 = w\<lparr>calls := calls w @ [GetUserMedia c]\<rparr>
      in case backend (length (calls w)) of
           Succeeds s \<Rightarrow> (Success s, setAvailableDevices um True w1)
         | Fails err \<Rightarrow> (Failure err, setAvailableDevices um False w1)
         | Throws err \<Rightarrow> (Failure err, w1)
         | Hangs \<Rightarrow> (NoCallback, w1))"

text \<open>The constraints of the React Native branch: the last front-facing video source.\<close>

definition videoSourceId :: "env \<Rightarrow> string option" where
  "videoSourceId e =
     (case filter (\<lambda>i. kind i = ''video'' \<and> facing i = ''front'') (sourceInfos e) of
        [] \<Rightarrow> None
      | i # is \<Rightarrow> Some (sourceInfoId (last (i # is))))"

definition reactNativeConstraints :: "env \<Rightarrow> constraints" where
  "reactNativeConstraints e =
     \<lparr>audio = Flag True,
      video = Obj (emptyMedia\<lparr>mandatory := None, optional := Some [SourceId (videoSourceId e)]\<rparr>),
      fake = None\<rparr>"

definition getUserMediaWithConstraints ::
  "env \<Rightarrow> (nat \<Rightarrow> outcome) \<Rightarrow> string list \<Rightarrow> options \<Rightarrow> world
     \<Rightarrow> gum_result \<times> options \<times> world" where
  "getUserMediaWithConstraints e backend um opts w =
     (if isReactNative e
      then (case getUM backend um (reactNativeConstraints e) w of
              (r, w1) \<Rightarrow> (r, opts, w1))
      else (case getConstraints e um opts of
              (Inl err, opts1) \<Rightarrow> (Raised err, opts1, w)
            | (Inr c, opts1) \<Rightarrow>
                (case getUM backend um c w of (r, w1) \<Rightarrow> (r, opts1, w1))))"

text \<open>\<^verbatim>\<open>screenObtainer.obtainStream(success, failure)\<close>, the desktop capture primitive.\<close>

definition obtainStream :: "(nat \<Rightarrow> outcome) \<Rightarrow> world \<Rightarrow> gum_result \<times> world" where
  "obtainStream backend w =
     (let w1 = w\<lparr>calls := calls w @ [ObtainStream]\<rparr>
      in case backend (length (calls w)) of
           Succeeds s \<Rightarrow> (Success s, w1)
         | Fails err \<Rightarrow> (Failure err, w1)
         | Throws err \<Rightarrow> (Raised err, w1)
         | Hangs \<Rightarrow> (NoCallback, w1))"

section \<open>obtainDevices\<close>

record track_error =
  failedKinds :: "string list"
  cause :: jserror

text \<open>
  Modelled from the spec: \<^verbatim>\<open>JitsiTrackErrors.parseError\<close> is defined in another file
  of the repository. The spec says of the error an acquisition fails with that it is
  "a classified error that names the specific kind that failed and preserves the
  underlying cause": the result holds the kinds the caller passes and the error.
\<close>

definition parseError :: "jserror \<Rightarrow> string list \<Rightarrow> track_error" where
  "parseError err kinds = \<lparr>failedKinds = kinds, cause = err\<rparr>"

text \<open>
  How a run of \<^verbatim>\<open>obtainDevices\<close> ends: it calls \<^verbatim>\<open>successCallback\<close> with the
  streams, it calls \<^verbatim>\<open>errorCallback\<close>, it raises to its caller, or neither callback
  is ever called: a capture never called back (\<open>Lost None\<close>) or an error was raised
  inside a callback of the backend, where nothing catches it (\<open>Lost (Some err)\<close>).
\<close>

datatype seq_result =
    SuccessCallback raw_bundle
  | ErrorCallback track_error
  | Thrown jserror
  | Lost "jserror option"

type_synonym capture = "options \<Rightarrow> world \<Rightarrow> gum_result \<times> options \<times> world"

text \<open>
  The arguments are the fields \<^verbatim>\<open>deviceGUM\<close>, \<^verbatim>\<open>devices\<close> and \<^verbatim>\<open>streams\<close> of the
  function's options object. \<^verbatim>\<open>options.streams[device] = stream\<close> is \<open>AList.update\<close>,
  which keeps the place of a key that is already there, as \<^verbatim>\<open>Object.keys\<close> does.
  The recursive call happens inside the success callback of the capture, so an error
  raised there is caught by nobody. The source hands \<^verbatim>\<open>parseError\<close> an array that
  holds the one-element array \<^verbatim>\<open>splice\<close> returned; the model hands over the list
  with the kind. The world returned with \<open>ErrorCallback\<close> is the world at the moment
  the callback is called: the streams have been stopped by then.
\<close>

fun obtainDevices ::
  "env \<Rightarrow> (string \<Rightarrow> capture option) \<Rightarrow> string list \<Rightarrow> raw_bundle \<Rightarrow> options \<Rightarrow> world
     \<Rightarrow> seq_result \<times> options \<times> world" where
  "obtainDevices e deviceGUM [] streams opts w = (SuccessCallback streams, opts, w)"
| "obtainDevices e deviceGUM (device # rest) streams opts w =
     (case deviceGUM device of
        None \<Rightarrow> (Thrown (TypeError ''options.deviceGUM[device] is not a function''), opts, w)
      | Some gum \<Rightarrow>
          (case gum opts w of
             (Success s, opts1, w1) \<Rightarrow>
               (case obtainDevices e deviceGUM rest (AList.update device s streams) opts1 w1 of
                  (Thrown err, opts2, w2) \<Rightarrow> (Lost (Some err), opts2, w2)
                | r \<Rightarrow> r)
           | (Failure err, opts1, w1) \<Rightarrow>
               (ErrorCallback (parseError err [device]), opts1,
                w1\<lparr>effects := effects w1 @ concat (map (\<lambda>(k, s). stopMediaStream e s) streams)\<rparr>)
           | (Raised err, opts1, w1) \<Rightarrow> (Thrown err, opts1, w1)
           | (NoCallback, opts1, w1) \<Rightarrow> (Lost None, opts1, w1)))"

section \<open>obtainAudioAndVideoPermissions\<close>

datatype rejection = Raw jserror | Classified track_error

datatype promise = Pending | Resolved "track_desc list" | Rejected rejection

text \<open>\<^verbatim>\<open>resolve\<close> and \<^verbatim>\<open>reject\<close> settle a promise once; later calls change nothing.\<close>

definition settle :: "promise \<Rightarrow> promise \<Rightarrow> promise" where
  "settle p q = (if p = Pending then q else p)"

definition successCallback :: "env \<Rightarrow> options \<Rightarrow> raw_bundle \<Rightarrow> promise" where
  "successCallback e opts streams =
     Resolved (handleLocalStream e (Some streams) (resolution opts))"

definition deviceGUM :: "env \<Rightarrow> (nat \<Rightarrow> outcome) \<Rightarrow> string \<Rightarrow> capture option" where
  "deviceGUM e backend device =
     (if device = ''audio'' then Some (getUserMediaWithConstraints e backend [''audio''])
      else if device = ''video'' then Some (getUserMediaWithConstraints e backend [''video''])
      else if device = ''desktop'' \<and> screenObtainer_isSupported e
      then Some (\<lambda>opts w. case obtainStream backend w of (r, w1) \<Rightarrow> (r, opts, w1))
      else None)"

text \<open>
  The branch for Firefox, React Native and the Temasys plugin: one capture per device.
  \<^verbatim>\<open>obtainDevices\<close> removes the kinds from \<^verbatim>\<open>options.devices\<close> as it goes; nothing
  reads that field afterwards, and the options record keeps the full list here.
\<close>

definition perDevice ::
  "env \<Rightarrow> (nat \<Rightarrow> outcome) \<Rightarrow> string list \<Rightarrow> options \<Rightarrow> world \<Rightarrow> promise \<Rightarrow> promise \<times> world" where
  "perDevice e backend devs opts w p =
     (case obtainDevices e (deviceGUM e backend) devs [] opts w of
        (SuccessCallback streams, opts1, w1) \<Rightarrow> (settle p (successCallback e opts1 streams), w1)
      | (ErrorCallback err, opts1, w1) \<Rightarrow> (settle p (Rejected (Classified err)), w1)
      | (Thrown err, opts1, w1) \<Rightarrow> (settle p (Rejected (Raw err)), w1)
      | (Lost _, opts1, w1) \<Rightarrow> (p, w1))"

text \<open>The other branch: one capture for audio and video, then one for the desktop.\<close>

definition combined ::
  "env \<Rightarrow> (nat \<Rightarrow> outcome) \<Rightarrow> string list \<Rightarrow> options \<Rightarrow> world \<Rightarrow> promise \<Rightarrow> promise \<times> world" where
  "combined e backend devs0 opts0 w p =
     (let hasDesktop = (''desktop'' \<in> set devs0);
          devs = (if hasDesktop then remove1 ''desktop'' devs0 else devs0);
          opts = opts0\<lparr>devices := Some devs,
                       resolution := (if truthyS (resolution opts0) then resolution opts0
                                      else Some ''360'')\<rparr>
      in if devs \<noteq> []
         then (case getUserMediaWithConstraints e backend devs opts w of
                 (Success s, opts1, w1) \<Rightarrow>
                   if (''audio'' \<in> set devs \<and> audioTracks s = [])
                      \<or> (''video'' \<in> set devs \<and> videoTracks s = [])
                   then (settle p (Rejected (Classified (parseError
                           (Error ''Unable to get the audio and video tracks.'') devs))),
                         w1\<lparr>effects := effects w1 @ stopMediaStream e s\<rparr>)
                   else if hasDesktop
                   then (case obtainStream backend w1 of
                           (Success d, w2) \<Rightarrow>
                             (settle p (successCallback e opts1
                                [(''audioVideo'', s), (''desktopStream'', d)]), w2)
                         | (Failure err, w2) \<Rightarrow>
                             (settle p (Rejected (Classified (parseError err devs))),
                              w2\<lparr>effects := effects w2 @ stopMediaStream e s\<rparr>)
                         | (Raised err, w2) \<Rightarrow> (p, w2)
                         | (NoCallback, w2) \<Rightarrow> (p, w2))
                   else (settle p (successCallback e opts1 [(''audioVideo'', s)]), w1)
               | (Failure err, opts1, w1) \<Rightarrow>
                   (settle p (Rejected (Classified (parseError err devs))), w1)
               | (Raised err, opts1, w1) \<Rightarrow> (settle p (Rejected (Raw err)), w1)
               | (NoCallback, opts1, w1) \<Rightarrow> (p, w1))
         else if hasDesktop
         then (case obtainStream backend w of
                 (Success s, w1) \<Rightarrow> (settle p (successCallback e opts [(''desktopStream'', s)]), w1)
               | (Failure err, w1) \<Rightarrow>
                   (settle p (Rejected (Classified (parseError err [''desktop'']))), w1)
               | (Raised err, w1) \<Rightarrow> (settle p (Rejected (Raw err)), w1)
               | (NoCallback, w1) \<Rightarrow> (p, w1))
         else (p, w))"

text \<open>
  The promise the function returns, once every callback that is going to run has run,
  and the state of the outside world then. The \<^verbatim>\<open>reject\<close> of an unsupported desktop
  is not followed by a \<^verbatim>\<open>return\<close>, so the function goes on into one of the two
  branches with a promise that is settled already.
\<close>

definition obtainAudioAndVideoPermissions ::
  "env \<Rightarrow> (nat \<Rightarrow> outcome) \<Rightarrow> options \<Rightarrow> world \<Rightarrow> promise \<times> world" where
  "obtainAudioAndVideoPermissions e backend opts0 w =
     (let devs = (case devices opts0 of None \<Rightarrow> [''audio'', ''video''] | Some ds \<Rightarrow> ds);
          opts = opts0\<lparr>devices := Some devs\<rparr>;
          p = (if \<not> screenObtainer_isSupported e \<and> ''desktop'' \<in> set devs
               then Rejected (Raw (Error ''Desktop sharing is not supported!''))
               else Pending)
      in if isFirefox e \<or> isReactNative e \<or> isTemasysPluginUsed e
         then perDevice e backend devs opts w p
         else combined e backend devs opts w p)"

section \<open>Closed forms used in the statements\<close>

text \<open>
  The descriptor \<^verbatim>\<open>getConstraints\<close> has built when it reaches the bandwidth block:
  the blocks for video, audio, screen and desktop, none of which can raise when it
  starts from the initial descriptor.
\<close>

definition built :: "env \<Rightarrow> string list \<Rightarrow> options \<Rightarrow> constraints" where
  "built e um opts =
     desktopStage e um opts (screenStage e um (audioStage e um opts
       (if ''video'' \<in> set um
          then constraints0\<lparr>video := Obj (emptyMedia
                \<lparr>mandatory := Some (setResolutionMandatory e emptyMandatory (resolution opts)),
                 optional :=
                   Some ((if truthyS (cameraDeviceId opts)
                          then [SourceId (cameraDeviceId opts)] else [])
                         @ [GoogLeakyBucket True]),
                 deviceId :=
                   (if truthyS (cameraDeviceId opts) then cameraDeviceId opts else None)\<rparr>)\<rparr>
          else constraints0)))"

text \<open>
  What the bandwidth block appends to \<^verbatim>\<open>optional\<close> and what the frame-rate block
  writes into \<^verbatim>\<open>mandatory\<close>, when the video constraint has these fields.
\<close>

definition bandwidthHints :: "options \<Rightarrow> hint list" where
  "bandwidthHints opts = (if truthyN (bandwidth opts) then [Bandwidth (bandwidth opts)] else [])"

definition fpsFields :: "options \<Rightarrow> mandatory_fields \<Rightarrow> mandatory_fields" where
  "fpsFields opts m =
     (let m1 = (if truthyN (minFps opts) \<or> truthyN (fps opts)
                then m\<lparr>minFrameRate := orN (minFps opts) (fps opts)\<rparr> else m)
      in if truthyN (maxFps opts) then m1\<lparr>maxFrameRate := maxFps opts\<rparr> else m1)"



section \<open>Example inputs\<close>

text \<open>
  Backends, options, streams and a scripted capture primitive, for the statements about
  concrete runs. The table holds two labels of the repository's resolution table.
\<close>

definition exampleResolutions :: "string \<Rightarrow> res_entry option" where
  "exampleResolutions label =
     (if label = ''720'' then Some \<lparr>width = 1280, height = 720\<rparr>
      else if label = ''360'' then Some \<lparr>width = 640, height = 360\<rparr>
      else None)"

definition otherBrowser :: env where
  "otherBrowser =
     \<lparr>isAndroid = False, isReactNative = False, isFirefox = False, isChrome = False,
      isTemasysPluginUsed = False, Resolutions = exampleResolutions,
      screen_width = 1920, screen_height = 1080, screensharingKey = Some ''key'',
      screenObtainer_isSupported = True, sourceInfos = [],
      newStreamId = ''fresh'', newStreamHasStop = False\<rparr>"

definition chrome :: env where
  "chrome = otherBrowser\<lparr>isChrome := True\<rparr>"

definition androidChrome :: env where
  "androidChrome = otherBrowser\<lparr>isChrome := True, isAndroid := True\<rparr>"

definition firefox :: env where
  "firefox = otherBrowser\<lparr>isFirefox := True\<rparr>"

definition reactNative :: env where
  "reactNative = otherBrowser\<lparr>isReactNative := True\<rparr>"

definition noOptions :: options where
  "noOptions =
     \<lparr>devices = None, resolution = None, bandwidth = None, fps = None, minFps = None,
      maxFps = None, desktopStream = None, cameraDeviceId = None, micDeviceId = None,
      firefox_fake_device = False\<rparr>"

definition micTrack :: media_track where
  "micTrack = \<lparr>trackId = ''mic-track'', hasStop = True\<rparr>"

definition cameraTrack :: media_track where
  "cameraTrack = \<lparr>trackId = ''camera-track'', hasStop = True\<rparr>"

definition screenTrack :: media_track where
  "screenTrack = \<lparr>trackId = ''screen-track'', hasStop = True\<rparr>"

definition audioOnly :: media_stream where
  "audioOnly =
     \<lparr>streamId = ''audio-stream'', audioTracks = [micTrack], videoTracks = [],
      streamHasStop = True, jitsiObjectURL = None\<rparr>"

definition videoOnly :: media_stream where
  "videoOnly =
     \<lparr>streamId = ''video-stream'', audioTracks = [], videoTracks = [cameraTrack],
      streamHasStop = False, jitsiObjectURL = Some ''blob:video''\<rparr>"

definition audioAndVideo :: media_stream where
  "audioAndVideo =
     \<lparr>streamId = ''av-stream'', audioTracks = [micTrack], videoTracks = [cameraTrack],
      streamHasStop = False, jitsiObjectURL = None\<rparr>"

definition desktopOnly :: media_stream where
  "desktopOnly =
     \<lparr>streamId = ''desktop-stream'', audioTracks = [], videoTracks = [screenTrack],
      streamHasStop = False, jitsiObjectURL = None\<rparr>"

definition trackless :: media_stream where
  "trackless =
     \<lparr>streamId = ''trackless-stream'', audioTracks = [], videoTracks = [],
      streamHasStop = False, jitsiObjectURL = None\<rparr>"

definition initialWorld :: world where
  "initialWorld = \<lparr>availableDevices = initialDevices, emitted = [], calls = [], effects = []\<rparr>"


definition chromeNoDesktop :: env where
  "chromeNoDesktop = chrome\<lparr>screenObtainer_isSupported := False\<rparr>"

definition firefoxNoDesktop :: env where
  "firefoxNoDesktop = firefox\<lparr>screenObtainer_isSupported := False\<rparr>"
section \<open>Facts about the constraint builder\<close>

lemma videoStage_camera:
  "videoStage e um opts constraints0 =
     Inr (if ''video'' \<in> set um
          then constraints0\<lparr>video := Obj (emptyMedia
                \<lparr>mandatory := Some (setResolutionMandatory e emptyMandatory (resolution opts)),
                 optional :=
                   Some ((if truthyS (cameraDeviceId opts)
                          then [SourceId (cameraDeviceId opts)] else [])
                         @ [GoogLeakyBucket True]),
                 deviceId :=
                   (if truthyS (cameraDeviceId opts) then cameraDeviceId opts else None)\<rparr>)\<rparr>
          else constraints0)"
  by (simp add: videoStage_def setResolutionConstraints_def emptyMedia_def constraints0_def)

lemma getConstraints_built:
  "getConstraints e um opts =
     (case bandwidthStage opts (built e um opts) of
        Inl err \<Rightarrow> (Inl err, opts)
      | Inr c2 \<Rightarrow>
          (case fpsStage opts c2 of
             (Inl err, opts1) \<Rightarrow> (Inl err, opts1)
           | (Inr c3, opts1) \<Rightarrow> (Inr (fakeStage e opts1 c3), opts1)))"
  unfolding getConstraints_def videoStage_camera built_def by simp

lemma built_minFps [simp]: "built e um (opts\<lparr>minFps := v\<rparr>) = built e um opts"
  by (simp add: built_def audioStage_def desktopStage_def desktopMandatory_def)

lemma bandwidthStage_minFps [simp]: "bandwidthStage (opts\<lparr>minFps := v\<rparr>) c = bandwidthStage opts c"
  by (simp add: bandwidthStage_def)

lemma maxFpsStage_minFps [simp]: "maxFpsStage (opts\<lparr>minFps := v\<rparr>) c = maxFpsStage opts c"
  by (simp add: maxFpsStage_def)

lemma fakeStage_minFps [simp]: "fakeStage e (opts\<lparr>minFps := v\<rparr>) c = fakeStage e opts c"
  by (simp add: fakeStage_def)



lemma snd_fpsStage:
  "snd (fpsStage opts c) =
     (if truthyN (minFps opts) \<or> truthyN (fps opts)
      then opts\<lparr>minFps := orN (minFps opts) (fps opts)\<rparr> else opts)"
  by (simp add: fpsStage_def Let_def split: sum.splits)


lemma snd_fpsStage_minFps: "snd (fpsStage opts c) = opts\<lparr>minFps := minFps (snd (fpsStage opts c))\<rparr>"
  unfolding snd_fpsStage by simp



lemma bandwidthStage_obj:
  assumes "video c = Obj v" "optional v = Some hs"
  shows "bandwidthStage opts c = Inr (c\<lparr>video := Obj (v\<lparr>optional := Some (hs @ bandwidthHints opts)\<rparr>)\<rparr>)"
proof -
  have "c\<lparr>video := Obj (v\<lparr>optional := Some hs\<rparr>)\<rparr> = c" using assms by simp
  then show ?thesis
    using assms
    by (simp add: bandwidthStage_def bandwidthHints_def ensureVideo_def truthyC_def pushOptional_def)
qed

lemma fpsStage_obj:
  assumes "video c = Obj v" "mandatory v = Some m"
  shows "fst (fpsStage opts c) = Inr (c\<lparr>video := Obj (v\<lparr>mandatory := Some (fpsFields opts m)\<rparr>)\<rparr>)"
proof -
  have e: "ensureVideo c = c" using assms by (simp add: ensureVideo_def truthyC_def)
  have i: "c\<lparr>video := Obj (v\<lparr>mandatory := Some m\<rparr>)\<rparr> = c" using assms by simp
  show ?thesis
    using assms i
    by (cases "truthyN (minFps opts)"; cases "truthyN (fps opts)"; cases "truthyN (maxFps opts)")
       (simp_all add: fpsStage_def e Let_def fpsFields_def maxFpsStage_def assignMandatory_def)
qed

lemma fst_getConstraints:
  "fst (getConstraints e um opts) =
     (case bandwidthStage opts (built e um opts) of
        Inl err \<Rightarrow> Inl err
      | Inr c2 \<Rightarrow>
          (case fst (fpsStage opts c2) of
             Inl err \<Rightarrow> Inl err
           | Inr c3 \<Rightarrow> Inr (fakeStage e opts c3)))"
proof (cases "bandwidthStage opts (built e um opts)")
  case (Inl err)
  then show ?thesis by (simp add: getConstraints_built)
next
  case (Inr c2)
  obtain r opts1 where f: "fpsStage opts c2 = (r, opts1)" by (cases "fpsStage opts c2")
  have "opts1 = opts\<lparr>minFps := minFps opts1\<rparr>"
    using snd_fpsStage_minFps [of opts c2] f by simp
  then have "fakeStage e opts1 = fakeStage e opts"
    by (metis fakeStage_minFps ext)
  then show ?thesis using Inr f by (cases r) (simp_all add: getConstraints_built)
qed

lemma getConstraints_obj:
  assumes "video (built e um opts) = Obj v" "mandatory v = Some m" "optional v = Some hs"
  shows "fst (getConstraints e um opts) =
     Inr (fakeStage e opts ((built e um opts)
       \<lparr>video := Obj (v\<lparr>optional := Some (hs @ bandwidthHints opts),
                         mandatory := Some (fpsFields opts m)\<rparr>)\<rparr>))"
proof -
  let ?c2 = "(built e um opts)\<lparr>video := Obj (v\<lparr>optional := Some (hs @ bandwidthHints opts)\<rparr>)\<rparr>"
  have b: "bandwidthStage opts (built e um opts) = Inr ?c2"
    using assms by (rule_tac bandwidthStage_obj) simp_all
  have f: "fst (fpsStage opts ?c2) =
      Inr (?c2\<lparr>video := Obj (v\<lparr>optional := Some (hs @ bandwidthHints opts),
                                 mandatory := Some (fpsFields opts m)\<rparr>)\<rparr>)"
    using assms by (intro fpsStage_obj) simp_all
  show ?thesis unfolding fst_getConstraints b using f by simp
qed

lemma fakeStage_fields [simp]:
  "video (fakeStage e opts c) = video c" "audio (fakeStage e opts c) = audio c"
  by (simp_all add: fakeStage_def)


lemma built_camera:
  assumes "''video'' \<in> set um" "''screen'' \<notin> set um" "''desktop'' \<notin> set um"
  shows "video (built e um opts) = Obj (emptyMedia
                \<lparr>mandatory := Some (setResolutionMandatory e emptyMandatory (resolution opts)),
                 optional :=
                   Some ((if truthyS (cameraDeviceId opts)
                          then [SourceId (cameraDeviceId opts)] else [])
                         @ [GoogLeakyBucket True]),
                 deviceId :=
                   (if truthyS (cameraDeviceId opts) then cameraDeviceId opts else None)\<rparr>)"
  using assms by (simp add: built_def desktopStage_def screenStage_def audioStage_def)



lemma fpsFields_dims [simp]:
  "minWidth (fpsFields opts m) = minWidth m" "minHeight (fpsFields opts m) = minHeight m"
  "maxWidth (fpsFields opts m) = maxWidth m" "maxHeight (fpsFields opts m) = maxHeight m"
  by (simp_all add: fpsFields_def Let_def)


lemmas stage_defs = audioStage_def screenStage_def desktopStage_def
  bandwidthStage_def fpsStage_def maxFpsStage_def fakeStage_def ensureVideo_def pushOptional_def
  assignMandatory_def constraints0_def emptyMedia_def truthyC_def

lemmas builder_defs = getConstraints_def videoStage_def setResolutionConstraints_def
  setResolutionMandatory_def setMaxFromMin_def emptyMandatory_def screenMandatory_def
  desktopMandatory_def audioHints_def stage_defs truthyN_def truthyS_def orN_def Let_def

lemmas example_defs = exampleResolutions_def otherBrowser_def chrome_def androidChrome_def
  firefox_def reactNative_def noOptions_def

lemma bandwidthStage_audio:
  "bandwidthStage opts c = Inr c' \<Longrightarrow> audio c' = audio c"
  by (auto simp: bandwidthStage_def pushOptional_def ensureVideo_def
      split: if_splits media_constraint.splits option.splits)

lemma assignMandatory_audio:
  "assignMandatory f c = Inr c' \<Longrightarrow> audio c' = audio c"
  by (auto simp: assignMandatory_def split: media_constraint.splits option.splits)

lemma maxFpsStage_audio:
  "maxFpsStage opts c = Inr c' \<Longrightarrow> audio c' = audio c"
  by (auto simp: maxFpsStage_def split: if_splits dest: assignMandatory_audio)

lemma ensureVideo_audio [simp]: "audio (ensureVideo c) = audio c"
  by (simp add: ensureVideo_def)

lemma fpsStage_audio:
  assumes "fst (fpsStage opts c) = Inr c'"
  shows "audio c' = audio c"
proof (cases "truthyN (minFps opts) \<or> truthyN (fps opts)")
  case True
  let ?o = "opts\<lparr>minFps := orN (minFps opts) (fps opts)\<rparr>"
  show ?thesis
  proof (cases "assignMandatory (\<lambda>m. m\<lparr>minFrameRate := minFps ?o\<rparr>) (ensureVideo c)")
    case (Inl err)
    with True assms show ?thesis
      by (cases "truthyN (minFps opts)"; cases "truthyN (fps opts)")
         (simp_all add: fpsStage_def Let_def)
  next
    case (Inr c1)
    with True assms have "maxFpsStage ?o c1 = Inr c'"
      by (cases "truthyN (minFps opts)"; cases "truthyN (fps opts)")
         (simp_all add: fpsStage_def Let_def)
    then have "audio c' = audio c1" by (rule maxFpsStage_audio)
    also have "audio c1 = audio (ensureVideo c)" using Inr by (rule assignMandatory_audio)
    finally show ?thesis by simp
  qed
next
  case False
  then have "fst (fpsStage opts c) = (if truthyN (maxFps opts) then maxFpsStage opts (ensureVideo c) else Inr c)"
    by (simp add: fpsStage_def)
  with assms show ?thesis
    by (cases "truthyN (maxFps opts)") (auto dest: maxFpsStage_audio)
qed

lemma built_audio:
  "audio (built e um opts) = audio (audioStage e um opts constraints0)"
  by (simp add: built_def desktopStage_def screenStage_def audioStage_def constraints0_def)

lemma getConstraints_audio:
  assumes "fst (getConstraints e um opts) = Inr c"
  shows "audio c = audio (audioStage e um opts constraints0)"
proof (cases "bandwidthStage opts (built e um opts)")
  case (Inl err)
  with assms show ?thesis by (simp add: fst_getConstraints)
next
  case (Inr c2)
  show ?thesis
  proof (cases "fst (fpsStage opts c2)")
    case (Inl err)
    with Inr assms show ?thesis by (simp add: fst_getConstraints)
  next
    case r: (Inr c3)
    with Inr assms have "c = fakeStage e opts c3" by (simp add: fst_getConstraints)
    then have "audio c = audio c3" by simp
    also have "\<dots> = audio c2" using r by (rule fpsStage_audio)
    also have "\<dots> = audio (built e um opts)" using Inr by (rule bandwidthStage_audio)
    finally show ?thesis by (simp add: built_audio)
  qed
qed

lemma audioStage_deviceId:
  assumes "''audio'' \<in> set um" "truthyS (micDeviceId opts)" "\<not> isReactNative e"
  shows "\<exists>a hs. audio (audioStage e um opts constraints0) = Obj a \<and> deviceId a = micDeviceId opts \<and>
           optional a = Some hs \<and> SourceId (micDeviceId opts) \<in> set hs"
  using assms by (cases "isFirefox e") (simp_all add: audioStage_def emptyMedia_def)

lemma audioStage_reactNative:
  assumes "''audio'' \<in> set um" "isReactNative e"
  shows "audio (audioStage e um opts constraints0) = Flag True"
  using assms by (simp add: audioStage_def)

lemma built_without_video:
  assumes "''video'' \<in> set um"
    and "''desktop'' \<in> set um \<or>
         (''screen'' \<in> set um \<and> (isChrome e \<or> isTemasysPluginUsed e \<or> isFirefox e))"
  shows "built e um opts = built e (filter (\<lambda>k. k \<noteq> ''video'') um) opts"
proof (cases "''desktop'' \<in> set um")
  case True
  then show ?thesis
    by (simp add: built_def desktopStage_def screenStage_def audioStage_def constraints0_def)
next
  case False
  with assms(2) have s: "''screen'' \<in> set um"
    and b: "isChrome e \<or> isTemasysPluginUsed e \<or> isFirefox e" by simp_all
  from b s False show ?thesis
    by (cases "isChrome e"; cases "isTemasysPluginUsed e"; cases "isFirefox e")
       (simp_all add: built_def desktopStage_def screenStage_def audioStage_def constraints0_def)
qed

lemma built_camera_options:
  assumes "''desktop'' \<in> set um \<or>
         (''screen'' \<in> set um \<and> (isChrome e \<or> isTemasysPluginUsed e \<or> isFirefox e))"
  shows "built e um (opts\<lparr>cameraDeviceId := cam, resolution := res\<rparr>) = built e um opts"
proof (cases "''desktop'' \<in> set um")
  case True
  then show ?thesis
    by (simp add: built_def desktopStage_def screenStage_def audioStage_def constraints0_def
      desktopMandatory_def)
next
  case False
  with assms have s: "''screen'' \<in> set um"
    and b: "isChrome e \<or> isTemasysPluginUsed e \<or> isFirefox e" by simp_all
  from b s False show ?thesis
    by (cases "isChrome e"; cases "isTemasysPluginUsed e"; cases "isFirefox e")
       (simp_all add: built_def desktopStage_def screenStage_def audioStage_def constraints0_def)
qed

lemma getConstraints_same_built:
  assumes "built e um opts = built e um' opts"
  shows "getConstraints e um opts = getConstraints e um' opts"
  by (simp add: getConstraints_built assms)

lemma bandwidthStage_camera [simp]:
  "bandwidthStage (opts\<lparr>cameraDeviceId := cam, resolution := res\<rparr>) c = bandwidthStage opts c"
  by (simp add: bandwidthStage_def)

lemma fakeStage_camera [simp]:
  "fakeStage e (opts\<lparr>cameraDeviceId := cam, resolution := res\<rparr>) c = fakeStage e opts c"
  by (simp add: fakeStage_def)

lemma maxFpsStage_camera [simp]:
  "maxFpsStage (opts\<lparr>cameraDeviceId := cam, resolution := res\<rparr>) c = maxFpsStage opts c"
  by (simp add: maxFpsStage_def)

lemma fpsStage_camera:
  "fst (fpsStage (opts\<lparr>cameraDeviceId := cam, resolution := res\<rparr>) c) = fst (fpsStage opts c)"
proof -
  have m: "maxFpsStage (opts\<lparr>cameraDeviceId := cam, resolution := res, minFps := x\<rparr>) c'
       = maxFpsStage (opts\<lparr>minFps := x\<rparr>) c'" for x c'
    by (simp add: maxFpsStage_def)
  show ?thesis
    by (cases "truthyN (minFps opts)"; cases "truthyN (fps opts)"; cases "truthyN (maxFps opts)")
       (simp_all add: fpsStage_def Let_def m split: sum.splits)
qed





section \<open>Claims about the constraint builder\<close>





text \<open>
  Claim C4 at a failing input. On Firefox a requested screen makes the video constraint
  \<^verbatim>\<open>{mozMediaSource: "window", mediaSource: "window"}\<close>, which has neither an
  \<^verbatim>\<open>optional\<close> nor a \<^verbatim>\<open>mandatory\<close> field; a bandwidth or a frame-rate option then
  makes the builder raise a TypeError.
\<close>

theorem builder_raises_on_firefox_screen:
  "fst (getConstraints firefox [''screen''] (noOptions\<lparr>bandwidth := Some 1000\<rparr>))
     = Inl (TypeError ''constraints.video.optional is undefined'') \<and>
   fst (getConstraints firefox [''screen''] (noOptions\<lparr>fps := Some 5\<rparr>))
     = Inl (TypeError ''constraints.video.mandatory is undefined'')"
  by (simp add: builder_defs example_defs)

text \<open>
  Claim C7, as the code has it. A camera identifier that is given (a non-empty string)
  is in the video constraint both as \<^verbatim>\<open>deviceId\<close> and as an optional
  \<^verbatim>\<open>sourceId\<close> when video is requested and neither a screen nor a desktop is. A
  microphone identifier that is given is in the audio constraint in both forms on every
  backend but React Native. On React Native the audio constraint is the boolean
  \<^verbatim>\<open>true\<close>, and \<^verbatim>\<open>getUserMediaWithConstraints\<close> does not call the builder: the
  descriptor it hands to the backend is made from the front camera alone.
\<close>

theorem device_identifier_both_forms:
  "(''video'' \<in> set um \<and> truthyS (cameraDeviceId opts) \<and>
      ''screen'' \<notin> set um \<and> ''desktop'' \<notin> set um \<longrightarrow>
      (\<exists>c v hs. fst (getConstraints e um opts) = Inr c \<and> video c = Obj v \<and>
         deviceId v = cameraDeviceId opts \<and> optional v = Some hs \<and>
         SourceId (cameraDeviceId opts) \<in> set hs)) \<and>
   (''audio'' \<in> set um \<and> truthyS (micDeviceId opts) \<and> \<not> isReactNative e \<and>
      fst (getConstraints e um opts) = Inr c \<longrightarrow>
      (\<exists>a hs. audio c = Obj a \<and> deviceId a = micDeviceId opts \<and> optional a = Some hs \<and>
         SourceId (micDeviceId opts) \<in> set hs)) \<and>
   (''audio'' \<in> set um \<and> isReactNative e \<and> fst (getConstraints e um opts) = Inr c \<longrightarrow>
      audio c = Flag True) \<and>
   (isReactNative e \<longrightarrow>
      calls (snd (snd (getUserMediaWithConstraints e backend um opts w)))
        = calls w @ [GetUserMedia (reactNativeConstraints e)])"
proof (intro conjI impI)
  assume a: "''video'' \<in> set um \<and> truthyS (cameraDeviceId opts) \<and>
      ''screen'' \<notin> set um \<and> ''desktop'' \<notin> set um"
  let ?m0 = "setResolutionMandatory e emptyMandatory (resolution opts)"
  let ?hs = "[SourceId (cameraDeviceId opts), GoogLeakyBucket True]"
  let ?v = "emptyMedia\<lparr>mandatory := Some ?m0, optional := Some ?hs,
              deviceId := cameraDeviceId opts\<rparr>"
  have b: "video (built e um opts) = Obj ?v"
    using built_camera [of um e opts] a by simp
  have g: "fst (getConstraints e um opts) =
     Inr (fakeStage e opts ((built e um opts)
       \<lparr>video := Obj (?v\<lparr>optional := Some (?hs @ bandwidthHints opts),
                          mandatory := Some (fpsFields opts ?m0)\<rparr>)\<rparr>))"
    by (rule getConstraints_obj [OF b]) simp_all
  show "\<exists>c v hs. fst (getConstraints e um opts) = Inr c \<and> video c = Obj v \<and>
         deviceId v = cameraDeviceId opts \<and> optional v = Some hs \<and>
         SourceId (cameraDeviceId opts) \<in> set hs"
    unfolding g by simp
next
  assume "''audio'' \<in> set um \<and> truthyS (micDeviceId opts) \<and> \<not> isReactNative e \<and>
      fst (getConstraints e um opts) = Inr c"
  then show "\<exists>a hs. audio c = Obj a \<and> deviceId a = micDeviceId opts \<and> optional a = Some hs \<and>
         SourceId (micDeviceId opts) \<in> set hs"
    using getConstraints_audio [of e um opts c] audioStage_deviceId [of um opts e] by simp
next
  assume "''audio'' \<in> set um \<and> isReactNative e \<and> fst (getConstraints e um opts) = Inr c"
  then show "audio c = Flag True"
    using getConstraints_audio [of e um opts c] audioStage_reactNative [of um e opts] by simp
next
  assume "isReactNative e"
  then show "calls (snd (snd (getUserMediaWithConstraints e backend um opts w)))
        = calls w @ [GetUserMedia (reactNativeConstraints e)]"
    by (cases "backend (length (calls w))")
       (simp_all add: getUserMediaWithConstraints_def getUM_def setAvailableDevices_def Let_def)
qed

theorem device_identifier_both_forms_witness:
  "(\<exists>c v hs. fst (getConstraints chrome [''audio'', ''video'']
        (noOptions\<lparr>cameraDeviceId := Some ''cam-1'', micDeviceId := Some ''mic-1''\<rparr>)) = Inr c \<and>
      video c = Obj v \<and> deviceId v = Some ''cam-1'' \<and> optional v = Some hs \<and>
      SourceId (Some ''cam-1'') \<in> set hs) \<and>
   (\<exists>c a hs. fst (getConstraints chrome [''audio'', ''video'']
        (noOptions\<lparr>cameraDeviceId := Some ''cam-1'', micDeviceId := Some ''mic-1''\<rparr>)) = Inr c \<and>
      audio c = Obj a \<and> deviceId a = Some ''mic-1'' \<and> optional a = Some hs \<and>
      SourceId (Some ''mic-1'') \<in> set hs)"
proof -
  let ?um = "[''audio'', ''video'']"
  let ?o = "noOptions\<lparr>cameraDeviceId := Some ''cam-1'', micDeviceId := Some ''mic-1''\<rparr>"
  have h: "''video'' \<in> set ?um" "''audio'' \<in> set ?um" "''screen'' \<notin> set ?um"
    "''desktop'' \<notin> set ?um" "truthyS (cameraDeviceId ?o)" "truthyS (micDeviceId ?o)"
    "\<not> isReactNative chrome" "cameraDeviceId ?o = Some ''cam-1''" "micDeviceId ?o = Some ''mic-1''"
    by (simp_all add: example_defs truthyS_def)
  have v: "\<exists>c v hs. fst (getConstraints chrome ?um ?o) = Inr c \<and>
      video c = Obj v \<and> deviceId v = Some ''cam-1'' \<and> optional v = Some hs \<and>
      SourceId (Some ''cam-1'') \<in> set hs"
    using device_identifier_both_forms [where um = ?um and opts = ?o and e = chrome] h
    by metis
  then obtain c where c: "fst (getConstraints chrome ?um ?o) = Inr c" by blast
  have "\<exists>a hs. audio c = Obj a \<and> deviceId a = Some ''mic-1'' \<and> optional a = Some hs \<and>
      SourceId (Some ''mic-1'') \<in> set hs"
    using device_identifier_both_forms [where um = ?um and opts = ?o and e = chrome and c = c] h c
    by metis
  with c v show ?thesis by blast
qed

text \<open>
  Claim C7 as stated fails on React Native: with a microphone identifier the audio
  constraint is \<^verbatim>\<open>true\<close> and holds no identifier.
\<close>

theorem react_native_drops_microphone_id:
  "fst (getConstraints reactNative [''audio''] (noOptions\<lparr>micDeviceId := Some ''mic-1''\<rparr>))
     = Inr \<lparr>audio = Flag True, video = Flag False, fake = None\<rparr>"
  by (simp add: builder_defs example_defs)

text \<open>
  Claim C10, as the code has it. When video is requested together with a desktop, or
  together with a screen on Chrome, the Temasys plugin or Firefox, the builder returns
  what it returns without the video kind, and its result does not depend on the camera
  identifier or the resolution label. With a desktop the video constraint is the
  desktop one (with the bandwidth and frame-rate options applied to it).
\<close>

theorem screen_or_desktop_replaces_camera:
  assumes "''video'' \<in> set um"
    and "''desktop'' \<in> set um \<or>
         (''screen'' \<in> set um \<and> (isChrome e \<or> isTemasysPluginUsed e \<or> isFirefox e))"
  shows "getConstraints e um opts = getConstraints e (filter (\<lambda>k. k \<noteq> ''video'') um) opts \<and>
     fst (getConstraints e um (opts\<lparr>cameraDeviceId := cam, resolution := res\<rparr>))
       = fst (getConstraints e um opts) \<and>
     (''desktop'' \<in> set um \<longrightarrow>
        fst (getConstraints e um opts) =
          Inr (fakeStage e opts (constraints0
            \<lparr>audio := audio (audioStage e um opts constraints0),
             video := Obj (emptyMedia
               \<lparr>optional := Some (bandwidthHints opts),
                mandatory := Some (fpsFields opts (desktopMandatory e opts))\<rparr>)\<rparr>)))"
proof (intro conjI impI)
  show "getConstraints e um opts = getConstraints e (filter (\<lambda>k. k \<noteq> ''video'') um) opts"
    by (rule getConstraints_same_built) (rule built_without_video [OF assms])
  show "fst (getConstraints e um (opts\<lparr>cameraDeviceId := cam, resolution := res\<rparr>))
           = fst (getConstraints e um opts)"
    by (simp add: fst_getConstraints built_camera_options [OF assms(2)] fpsStage_camera
        cong: sum.case_cong)
next
  assume d: "''desktop'' \<in> set um"
  let ?v = "emptyMedia\<lparr>mandatory := Some (desktopMandatory e opts)\<rparr>"
  have b: "built e um opts = constraints0
             \<lparr>audio := audio (audioStage e um opts constraints0), video := Obj ?v\<rparr>"
    using d by (simp add: built_def desktopStage_def screenStage_def audioStage_def constraints0_def)
  have v: "video (built e um opts) = Obj ?v" by (simp add: b)
  have "fst (getConstraints e um opts) =
     Inr (fakeStage e opts ((built e um opts)
       \<lparr>video := Obj (?v\<lparr>optional := Some ([] @ bandwidthHints opts),
                        mandatory := Some (fpsFields opts (desktopMandatory e opts))\<rparr>)\<rparr>))"
    by (rule getConstraints_obj [OF v]) (simp_all add: emptyMedia_def)
  then show "fst (getConstraints e um opts) =
           Inr (fakeStage e opts (constraints0
             \<lparr>audio := audio (audioStage e um opts constraints0),
              video := Obj (emptyMedia
                \<lparr>optional := Some (bandwidthHints opts),
                 mandatory := Some (fpsFields opts (desktopMandatory e opts))\<rparr>)\<rparr>))"
    by (simp add: b)
qed

theorem screen_or_desktop_replaces_camera_witness:
  "getConstraints chrome [''video'', ''desktop'']
      (noOptions\<lparr>resolution := Some ''360'', cameraDeviceId := Some ''cam-1''\<rparr>)
     = getConstraints chrome [''desktop'']
      (noOptions\<lparr>resolution := Some ''360'', cameraDeviceId := Some ''cam-1''\<rparr>) \<and>
   fst (getConstraints chrome [''video'', ''desktop'']
      (noOptions\<lparr>resolution := Some ''360'', cameraDeviceId := Some ''cam-1''\<rparr>))
     = Inr \<lparr>audio = Flag False,
            video = Obj \<lparr>mandatory = Some (desktopMandatory chrome noOptions),
                         optional = Some [], deviceId = None,
                         mozMediaSource = None, mediaSource = None\<rparr>,
            fake = None\<rparr>"
proof -
  let ?um = "[''video'', ''desktop'']"
  let ?o = "noOptions\<lparr>resolution := Some ''360'', cameraDeviceId := Some ''cam-1''\<rparr>"
  have h: "''video'' \<in> set ?um"
    "''desktop'' \<in> set ?um \<or>
       (''screen'' \<in> set ?um \<and> (isChrome chrome \<or> isTemasysPluginUsed chrome \<or> isFirefox chrome))"
    by simp_all
  have f: "filter (\<lambda>k. k \<noteq> ''video'') ?um = [''desktop'']" by simp
  have r: "fakeStage chrome ?o (constraints0
            \<lparr>audio := audio (audioStage chrome ?um ?o constraints0),
             video := Obj (emptyMedia
               \<lparr>optional := Some (bandwidthHints ?o),
                mandatory := Some (fpsFields ?o (desktopMandatory chrome ?o))\<rparr>)\<rparr>)
        = \<lparr>audio = Flag False,
            video = Obj \<lparr>mandatory = Some (desktopMandatory chrome noOptions),
                         optional = Some [], deviceId = None,
                         mozMediaSource = None, mediaSource = None\<rparr>,
            fake = None\<rparr>"
    by (simp add: fakeStage_def audioStage_def constraints0_def emptyMedia_def bandwidthHints_def
        fpsFields_def desktopMandatory_def truthyN_def example_defs)
  note t = screen_or_desktop_replaces_camera [OF h, where opts = ?o and cam = None and res = None]
  from t [unfolded f] have 1: "getConstraints chrome ?um ?o = getConstraints chrome [''desktop''] ?o"
    by (rule conjunct1)
  from t have "''desktop'' \<in> set ?um \<longrightarrow>
      fst (getConstraints chrome ?um ?o) =
        Inr (fakeStage chrome ?o (constraints0
            \<lparr>audio := audio (audioStage chrome ?um ?o constraints0),
             video := Obj (emptyMedia
               \<lparr>optional := Some (bandwidthHints ?o),
                mandatory := Some (fpsFields ?o (desktopMandatory chrome ?o))\<rparr>)\<rparr>))"
    by (rule conjunct2 [THEN conjunct2])
  then have 3: "fst (getConstraints chrome ?um ?o) =
        Inr (fakeStage chrome ?o (constraints0
            \<lparr>audio := audio (audioStage chrome ?um ?o constraints0),
             video := Obj (emptyMedia
               \<lparr>optional := Some (bandwidthHints ?o),
                mandatory := Some (fpsFields ?o (desktopMandatory chrome ?o))\<rparr>)\<rparr>))"
    by simp
  show ?thesis using 1 3 [unfolded r] by (rule conjI)
qed

text \<open>
  Claim C10 as stated fails for a screen on any other backend: the screen branch only
  logs an error there, and the camera constraint stays in the result.
\<close>

theorem unsupported_screen_keeps_camera:
  "fst (getConstraints otherBrowser [''video'', ''screen'']
          (noOptions\<lparr>resolution := Some ''360'', cameraDeviceId := Some ''cam-1''\<rparr>))
     = Inr \<lparr>audio = Flag False,
            video = Obj \<lparr>mandatory = Some (emptyMandatory
                           \<lparr>minWidth := Some 640, minHeight := Some 360,
                            maxWidth := Some 640, maxHeight := Some 360\<rparr>),
                         optional = Some [SourceId (Some ''cam-1''), GoogLeakyBucket True],
                         deviceId = Some ''cam-1'', mozMediaSource = None, mediaSource = None\<rparr>,
            fake = None\<rparr>"
  by (simp add: builder_defs example_defs)

section \<open>Facts about the normalizer and the tracker\<close>

lemmas stream_defs = micTrack_def cameraTrack_def screenTrack_def audioOnly_def videoOnly_def
  audioAndVideo_def desktopOnly_def trackless_def

lemmas normalizer_defs = handleLocalStream_def desktopStreamOf_def audioStreamOf_def
  videoStreamOf_def firstTrack_def webkitMediaStream_def addAudioTrack_def addVideoTrack_def

lemma audioTracks_foldl_add:
  "audioTracks (foldl addAudioTrack s ts) = audioTracks s @ ts"
  by (induction ts arbitrary: s) (simp_all add: addAudioTrack_def)

lemma videoTracks_foldl_add:
  "videoTracks (foldl addVideoTrack s ts) = videoTracks s @ ts"
  by (induction ts arbitrary: s) (simp_all add: addVideoTrack_def)

lemma audioStreamOf_combined:
  assumes "map_of b ''audioVideo'' = Some av" "audioStreamOf e (Some b) = Some a"
  shows "audioTracks a = audioTracks av"
  using assms
  by (auto simp: audioStreamOf_def audioTracks_foldl_add webkitMediaStream_def split: if_splits)

lemma videoStreamOf_combined:
  assumes "map_of b ''audioVideo'' = Some av" "videoStreamOf e (Some b) = Some v"
  shows "videoTracks v = videoTracks av"
  using assms
  by (auto simp: videoStreamOf_def videoTracks_foldl_add webkitMediaStream_def split: if_splits)

lemma handleLocalStream_kinds:
  "map (\<lambda>d. (mediaType d, videoType d)) (handleLocalStream e streams res)
     = (if desktopStreamOf streams = None then [] else [(VIDEO, Some DESKTOP)])
       @ (if audioStreamOf e streams = None then [] else [(AUDIO, None)])
       @ (if videoStreamOf e streams = None then [] else [(VIDEO, Some CAMERA)])"
  by (cases "desktopStreamOf streams"; cases "audioStreamOf e streams";
      cases "videoStreamOf e streams") (simp_all add: handleLocalStream_def)

lemma handleLocalStream_member:
  assumes "d \<in> set (handleLocalStream e streams res)"
  shows "(\<exists>s. desktopStreamOf streams = Some s \<and>
            d = \<lparr>stream = s, track = firstTrack (videoTracks s), mediaType = VIDEO,
                 videoType = Some DESKTOP, resolutionLabel = None\<rparr>) \<or>
         (\<exists>s. audioStreamOf e streams = Some s \<and>
            d = \<lparr>stream = s, track = firstTrack (audioTracks s), mediaType = AUDIO,
                 videoType = None, resolutionLabel = None\<rparr>) \<or>
         (\<exists>s. videoStreamOf e streams = Some s \<and>
            d = \<lparr>stream = s, track = firstTrack (videoTracks s), mediaType = VIDEO,
                 videoType = Some CAMERA, resolutionLabel = res\<rparr>)"
  using assms
  by (cases "desktopStreamOf streams"; cases "audioStreamOf e streams";
      cases "videoStreamOf e streams") (auto simp: handleLocalStream_def)

lemma getUM_succeeds:
  assumes "backend (length (calls w)) = Succeeds s"
  shows "getUM backend um c w =
     (Success s, setAvailableDevices um True (w\<lparr>calls := calls w @ [GetUserMedia c]\<rparr>))"
  using assms by (simp add: getUM_def)

lemma getUM_fails:
  assumes "backend (length (calls w)) = Fails err"
  shows "getUM backend um c w =
     (Failure err, setAvailableDevices um False (w\<lparr>calls := calls w @ [GetUserMedia c]\<rparr>))"
  using assms by (simp add: getUM_def)

lemma setAvailableDevices_fields:
  "emitted (setAvailableDevices um b w) = emitted w @ [availableDevices (setAvailableDevices um b w)]"
  "videoAvailable (availableDevices (setAvailableDevices um b w))
     = (if ''video'' \<in> set um then b else videoAvailable (availableDevices w))"
  "audioAvailable (availableDevices (setAvailableDevices um b w))
     = (if ''audio'' \<in> set um then b else audioAvailable (availableDevices w))"
  "calls (setAvailableDevices um b w) = calls w"
  "effects (setAvailableDevices um b w) = effects w"
  by (simp_all add: setAvailableDevices_def Let_def)

section \<open>Claims about the normalizer and the tracker\<close>

text \<open>
  Claim C8, as the code has it. The descriptors come in the order desktop video, audio,
  camera video, one for each of the three streams the function finds. The track of a
  descriptor is the first audio (for audio) or the first video track of its stream, and
  for a combined stream the first audio and the first video track of that stream. A
  desktop descriptor has media type VIDEO, no resolution label, and the desktop stream.
  No bundle, an empty bundle, and a combined stream without tracks (and no desktop
  stream) give the empty list. The function never raises: it is total here.
\<close>

theorem normalizer_order_and_tracks:
  "map (\<lambda>d. (mediaType d, videoType d)) (handleLocalStream e streams res)
     = (if desktopStreamOf streams = None then [] else [(VIDEO, Some DESKTOP)])
       @ (if audioStreamOf e streams = None then [] else [(AUDIO, None)])
       @ (if videoStreamOf e streams = None then [] else [(VIDEO, Some CAMERA)]) \<and>
   (\<forall>d \<in> set (handleLocalStream e streams res).
      (mediaType d = AUDIO \<longrightarrow> track d = firstTrack (audioTracks (stream d))) \<and>
      (mediaType d = VIDEO \<longrightarrow> track d = firstTrack (videoTracks (stream d))) \<and>
      (videoType d = Some DESKTOP \<longrightarrow>
         mediaType d = VIDEO \<and> resolutionLabel d = None \<and>
         desktopStreamOf streams = Some (stream d)) \<and>
      (\<forall>b av. streams = Some b \<and> map_of b ''audioVideo'' = Some av \<longrightarrow>
         (mediaType d = AUDIO \<longrightarrow> track d = firstTrack (audioTracks av)) \<and>
         (videoType d = Some CAMERA \<longrightarrow> track d = firstTrack (videoTracks av)))) \<and>
   handleLocalStream e None res = [] \<and>
   handleLocalStream e (Some []) res = [] \<and>
   (\<forall>b (av :: media_stream). map_of b ''audioVideo'' = Some av \<and> audioTracks av = [] \<and> videoTracks av = [] \<and>
      map_of b ''desktopStream'' = None \<and> map_of b ''desktop'' = None \<longrightarrow>
      handleLocalStream e (Some b) res = [])"
proof (intro conjI ballI allI impI)
  show "map (\<lambda>d. (mediaType d, videoType d)) (handleLocalStream e streams res)
     = (if desktopStreamOf streams = None then [] else [(VIDEO, Some DESKTOP)])
       @ (if audioStreamOf e streams = None then [] else [(AUDIO, None)])
       @ (if videoStreamOf e streams = None then [] else [(VIDEO, Some CAMERA)])"
    by (rule handleLocalStream_kinds)
  show "handleLocalStream e None res = []" "handleLocalStream e (Some []) res = []"
    by (simp_all add: normalizer_defs)
next
  fix b and av :: media_stream
  assume "map_of b ''audioVideo'' = Some av \<and> audioTracks av = [] \<and> videoTracks av = [] \<and>
      map_of b ''desktopStream'' = None \<and> map_of b ''desktop'' = None"
  then show "handleLocalStream e (Some b) res = []"
    by (simp add: normalizer_defs)
next
  fix d assume d: "d \<in> set (handleLocalStream e streams res)"
  note m = handleLocalStream_member [OF d]
  { assume "mediaType d = AUDIO"
    with m show "track d = firstTrack (audioTracks (stream d))" by auto }
  { assume "mediaType d = VIDEO"
    with m show "track d = firstTrack (videoTracks (stream d))" by auto }
  { assume "videoType d = Some DESKTOP"
    with m show "mediaType d = VIDEO" "resolutionLabel d = None"
      "desktopStreamOf streams = Some (stream d)" by auto }
  { fix b av
    assume s: "streams = Some b \<and> map_of b ''audioVideo'' = Some av"
    { assume "mediaType d = AUDIO"
      with m obtain a where a: "audioStreamOf e streams = Some a"
          "d = \<lparr>stream = a, track = firstTrack (audioTracks a), mediaType = AUDIO,
                 videoType = None, resolutionLabel = None\<rparr>"
        by auto
      from s a(1) have "audioTracks a = audioTracks av"
        using audioStreamOf_combined [of b av e a] by simp
      with a(2) show "track d = firstTrack (audioTracks av)" by simp }
    { assume "videoType d = Some CAMERA"
      with m obtain v where v: "videoStreamOf e streams = Some v"
          "d = \<lparr>stream = v, track = firstTrack (videoTracks v), mediaType = VIDEO,
                 videoType = Some CAMERA, resolutionLabel = res\<rparr>"
        by auto
      from s v(1) have "videoTracks v = videoTracks av"
        using videoStreamOf_combined [of b av e v] by simp
      with v(2) show "track d = firstTrack (videoTracks av)" by simp } }
qed

theorem normalizer_order_and_tracks_witness:
  "map (\<lambda>d. (mediaType d, videoType d, track d, resolutionLabel d))
     (handleLocalStream chrome
        (Some [(''audioVideo'', audioAndVideo), (''desktopStream'', desktopOnly)]) (Some ''360''))
     = [(VIDEO, Some DESKTOP, Some screenTrack, None),
        (AUDIO, None, Some micTrack, None),
        (VIDEO, Some CAMERA, Some cameraTrack, Some ''360'')]"
  using normalizer_order_and_tracks
    [of chrome "Some [(''audioVideo'', audioAndVideo), (''desktopStream'', desktopOnly)]" "Some ''360''"]
  by (simp add: normalizer_defs stream_defs)

text \<open>
  Claim C8 as stated fails for a stream captured per device: the stream under
  \<^verbatim>\<open>audio\<close> gets a descriptor also when it has no track, and the descriptor's track
  is \<^verbatim>\<open>undefined\<close>.
\<close>

theorem trackless_stream_yields_descriptor:
  "handleLocalStream firefox (Some [(''audio'', trackless)]) None
     = [\<lparr>stream = trackless, track = None, mediaType = AUDIO, videoType = None,
         resolutionLabel = None\<rparr>]"
  by (simp add: normalizer_defs stream_defs)

text \<open>
  Claim C6, as the code has it. \<^verbatim>\<open>getUM\<close> is the capture inside
  \<^verbatim>\<open>getUserMediaWithConstraints\<close>. When the backend calls the error callback, the
  flag of every requested kind among audio and video is false afterwards; when it
  calls the success callback, the flag is true. In both cases one notification is
  emitted, whose payload is the snapshot after the update, whether or not a flag has
  changed. The flag of a kind that was not requested stays as it was.
\<close>

theorem tracker_follows_callbacks:
  "(\<forall>err. backend (length (calls w)) = Fails err \<longrightarrow>
      (''video'' \<in> set um \<longrightarrow>
         \<not> videoAvailable (getDeviceAvailability (snd (getUM backend um c w)))) \<and>
      (''audio'' \<in> set um \<longrightarrow>
         \<not> audioAvailable (getDeviceAvailability (snd (getUM backend um c w)))) \<and>
      emitted (snd (getUM backend um c w))
        = emitted w @ [getDeviceAvailability (snd (getUM backend um c w))]) \<and>
   (\<forall>s. backend (length (calls w)) = Succeeds s \<longrightarrow>
      (''video'' \<in> set um \<longrightarrow>
         videoAvailable (getDeviceAvailability (snd (getUM backend um c w)))) \<and>
      (''audio'' \<in> set um \<longrightarrow>
         audioAvailable (getDeviceAvailability (snd (getUM backend um c w)))) \<and>
      emitted (snd (getUM backend um c w))
        = emitted w @ [getDeviceAvailability (snd (getUM backend um c w))]) \<and>
   (''video'' \<notin> set um \<longrightarrow>
      videoAvailable (getDeviceAvailability (snd (getUM backend um c w)))
        = videoAvailable (getDeviceAvailability w)) \<and>
   (''audio'' \<notin> set um \<longrightarrow>
      audioAvailable (getDeviceAvailability (snd (getUM backend um c w)))
        = audioAvailable (getDeviceAvailability w))"
proof (intro conjI allI impI)
  fix err assume f: "backend (length (calls w)) = Fails err"
  show "emitted (snd (getUM backend um c w))
        = emitted w @ [getDeviceAvailability (snd (getUM backend um c w))]"
    by (simp add: getUM_fails [of backend w err, OF f] getDeviceAvailability_def setAvailableDevices_fields)
  { assume "''video'' \<in> set um"
    then show "\<not> videoAvailable (getDeviceAvailability (snd (getUM backend um c w)))"
      by (simp add: getUM_fails [of backend w err, OF f] getDeviceAvailability_def setAvailableDevices_fields) }
  { assume "''audio'' \<in> set um"
    then show "\<not> audioAvailable (getDeviceAvailability (snd (getUM backend um c w)))"
      by (simp add: getUM_fails [of backend w err, OF f] getDeviceAvailability_def setAvailableDevices_fields) }
next
  fix s assume f: "backend (length (calls w)) = Succeeds s"
  show "emitted (snd (getUM backend um c w))
        = emitted w @ [getDeviceAvailability (snd (getUM backend um c w))]"
    by (simp add: getUM_succeeds [of backend w s, OF f] getDeviceAvailability_def setAvailableDevices_fields)
  { assume "''video'' \<in> set um"
    then show "videoAvailable (getDeviceAvailability (snd (getUM backend um c w)))"
      by (simp add: getUM_succeeds [of backend w s, OF f] getDeviceAvailability_def setAvailableDevices_fields) }
  { assume "''audio'' \<in> set um"
    then show "audioAvailable (getDeviceAvailability (snd (getUM backend um c w)))"
      by (simp add: getUM_succeeds [of backend w s, OF f] getDeviceAvailability_def setAvailableDevices_fields) }
next
  assume "''video'' \<notin> set um"
  then show "videoAvailable (getDeviceAvailability (snd (getUM backend um c w)))
        = videoAvailable (getDeviceAvailability w)"
    by (cases "backend (length (calls w))")
       (simp_all add: getUM_def getDeviceAvailability_def setAvailableDevices_fields)
next
  assume "''audio'' \<notin> set um"
  then show "audioAvailable (getDeviceAvailability (snd (getUM backend um c w)))
        = audioAvailable (getDeviceAvailability w)"
    by (cases "backend (length (calls w))")
       (simp_all add: getUM_def getDeviceAvailability_def setAvailableDevices_fields)
qed

theorem tracker_follows_callbacks_witness:
  "\<not> videoAvailable (getDeviceAvailability
       (snd (getUM (\<lambda>n. Fails (BackendError ''denied'')) [''video''] constraints0 initialWorld))) \<and>
   emitted (snd (getUM (\<lambda>n. Fails (BackendError ''denied'')) [''video''] constraints0 initialWorld))
     = [\<lparr>audioAvailable = True, videoAvailable = False\<rparr>] \<and>
   videoAvailable (getDeviceAvailability
       (snd (getUM (\<lambda>n. Succeeds videoOnly) [''video''] constraints0
          (snd (getUM (\<lambda>n. Fails (BackendError ''denied'')) [''video''] constraints0 initialWorld))))) \<and>
   emitted (snd (getUM (\<lambda>n. Succeeds videoOnly) [''video''] constraints0
          (snd (getUM (\<lambda>n. Fails (BackendError ''denied'')) [''video''] constraints0 initialWorld))))
     = [\<lparr>audioAvailable = True, videoAvailable = False\<rparr>,
        \<lparr>audioAvailable = True, videoAvailable = True\<rparr>]"
proof -
  let ?w1 = "snd (getUM (\<lambda>n. Fails (BackendError ''denied'')) [''video''] constraints0 initialWorld)"
  have 1: "\<not> videoAvailable (getDeviceAvailability ?w1) \<and>
      emitted ?w1 = emitted initialWorld @ [getDeviceAvailability ?w1]"
    using tracker_follows_callbacks
      [of "\<lambda>n. Fails (BackendError ''denied'')" initialWorld "[''video'']" constraints0]
    by simp
  let ?w2 = "snd (getUM (\<lambda>n. Succeeds videoOnly) [''video''] constraints0 ?w1)"
  have 2: "videoAvailable (getDeviceAvailability ?w2) \<and>
      emitted ?w2 = emitted ?w1 @ [getDeviceAvailability ?w2]"
    using tracker_follows_callbacks
      [of "\<lambda>n. Succeeds videoOnly" ?w1 "[''video'']" constraints0]
    by simp
  have a: "audioAvailable (getDeviceAvailability ?w1)" "audioAvailable (getDeviceAvailability ?w2)"
    by (simp_all add: getUM_def setAvailableDevices_def getDeviceAvailability_def initialWorld_def
        initialDevices_def Let_def)
  have e: "emitted initialWorld = []" by (simp add: initialWorld_def)
  have r: "d = \<lparr>audioAvailable = audioAvailable d, videoAvailable = videoAvailable d\<rparr>"
    for d :: availability by simp
  have d1: "getDeviceAvailability ?w1 = \<lparr>audioAvailable = True, videoAvailable = False\<rparr>"
    using 1 a(1) by (subst r) simp
  have d2: "getDeviceAvailability ?w2 = \<lparr>audioAvailable = True, videoAvailable = True\<rparr>"
    using 2 a(2) by (subst r) simp
  show ?thesis using 1 2 d1 d2 e by simp
qed

text \<open>
  Claim C6 as stated fails: a successful capture of video while video is available
  changes no flag and still emits a notification.
\<close>

theorem notification_without_flip:
  "availableDevices (snd (getUM (\<lambda>n. Succeeds videoOnly) [''video''] constraints0 initialWorld))
     = availableDevices initialWorld \<and>
   emitted initialWorld = [] \<and>
   emitted (snd (getUM (\<lambda>n. Succeeds videoOnly) [''video''] constraints0 initialWorld))
     = [initialDevices]"
  by (simp add: getUM_def setAvailableDevices_def initialWorld_def initialDevices_def Let_def)

section \<open>Facts about the acquisition\<close>














section \<open>Claims about the acquisition\<close>



text \<open>
  Claim C2 at a failing input. Desktop capture is not supported and audio and a desktop
  are requested. The promise is rejected at once, and the function goes on: with one
  capture per device the microphone is captured and its stream is never stopped; with
  the combined capture \<^verbatim>\<open>getUserMedia\<close> is called for the audio and its failure is
  written into the availability flags.
\<close>

theorem unsupported_desktop_still_captures:
  "fst (obtainAudioAndVideoPermissions firefoxNoDesktop (\<lambda>n. Succeeds audioOnly)
          (noOptions\<lparr>devices := Some [''audio'', ''desktop'']\<rparr>) initialWorld)
     = Rejected (Raw (Error ''Desktop sharing is not supported!'')) \<and>
   map (\<lambda>c. c = ObtainStream)
       (calls (snd (obtainAudioAndVideoPermissions firefoxNoDesktop (\<lambda>n. Succeeds audioOnly)
          (noOptions\<lparr>devices := Some [''audio'', ''desktop'']\<rparr>) initialWorld)))
     = [False] \<and>
   effects (snd (obtainAudioAndVideoPermissions firefoxNoDesktop (\<lambda>n. Succeeds audioOnly)
          (noOptions\<lparr>devices := Some [''audio'', ''desktop'']\<rparr>) initialWorld)) = [] \<and>
   fst (obtainAudioAndVideoPermissions chromeNoDesktop (\<lambda>n. Fails (BackendError ''denied''))
          (noOptions\<lparr>devices := Some [''audio'', ''desktop'']\<rparr>) initialWorld)
     = Rejected (Raw (Error ''Desktop sharing is not supported!'')) \<and>
   map (\<lambda>c. c = ObtainStream)
       (calls (snd (obtainAudioAndVideoPermissions chromeNoDesktop (\<lambda>n. Fails (BackendError ''denied''))
          (noOptions\<lparr>devices := Some [''audio'', ''desktop'']\<rparr>) initialWorld)))
     = [False] \<and>
   emitted (snd (obtainAudioAndVideoPermissions chromeNoDesktop (\<lambda>n. Fails (BackendError ''denied''))
          (noOptions\<lparr>devices := Some [''audio'', ''desktop'']\<rparr>) initialWorld))
     = [\<lparr>audioAvailable = False, videoAvailable = True\<rparr>]"
  by (simp add: obtainAudioAndVideoPermissions_def combined_def perDevice_def deviceGUM_def
      getUserMediaWithConstraints_def getUM_def obtainStream_def setAvailableDevices_def
      settle_def successCallback_def chromeNoDesktop_def firefoxNoDesktop_def initialWorld_def
      initialDevices_def parseError_def builder_defs example_defs stream_defs Let_def)

text \<open>
  Claim C3 at a failing input. With an empty list of kinds the branch of the combined
  capture calls neither \<^verbatim>\<open>resolve\<close> nor \<^verbatim>\<open>reject\<close>: the promise stays pending for
  every backend. The per-device branch resolves with no descriptor. Neither makes a
  backend call or touches the availability flags.
\<close>

theorem empty_request_never_settles:
  "obtainAudioAndVideoPermissions chrome backend (noOptions\<lparr>devices := Some []\<rparr>) w
     = (Pending, w) \<and>
   obtainAudioAndVideoPermissions firefox backend (noOptions\<lparr>devices := Some []\<rparr>) w
     = (Resolved [], w)"
  by (simp add: obtainAudioAndVideoPermissions_def combined_def perDevice_def settle_def
      successCallback_def normalizer_defs example_defs Let_def)

end
